theory Spec2Isabelle
  imports Main
begin

text \<open>
  The chat front end of ROOTED AI: the component \<open>MessageBubble\<close>, which renders one
  message and its ``memory used'' explanation, and the handler \<open>handleSend\<close> of
  \<open>App\<close>, which sends the user's text and appends the answer to the transcript.
  Strings are lists of 8-bit characters.
\<close>

section \<open>Data model\<close>

text \<open>
  The explanation payload is a JavaScript object whose properties \<open>stem\<close> and \<open>branch\<close>
  hold arrays of strings. An object is a map from property names to arrays; a property
  that is absent (\<open>undefined\<close>) or \<open>null\<close> is \<open>None\<close>, which is what the optional
  chaining \<open>?.\<close> of the source tests for. The object may carry any further property
  (a \<open>leaf\<close> array, say).
\<close>

type_synonym explanation = "string \<rightharpoonup> string list"

text \<open>
  A chat message as \<open>App\<close> builds it: \<open>{ role, text, explanation }\<close>. The field
  \<open>text\<close> is called \<open>msg_text\<close> here. A message without an \<open>explanation\<close>
  property (the user's message, the connection-error message) has \<open>None\<close>.
\<close>

record message =
  role :: string
  msg_text :: string
  explanation :: "explanation option"

text \<open>
  What a component returns: a tree of elements. An element has a tag, its attributes in
  source order and its children. React's \<open>key\<close> is not an attribute of the output and
  is left out; a handler is recorded as an attribute that names the state update it runs.
\<close>

datatype vnode =
  VText string
| VElem string "(string \<times> string) list" "vnode list"

section \<open>MessageBubble.jsx\<close>

text \<open>\<open>const memoryData = message.explanation || {}\<close>\<close>

definition memoryData :: "message \<Rightarrow> explanation" where
  "memoryData message = (case explanation message of None \<Rightarrow> Map.empty | Some e \<Rightarrow> e)"

text \<open>\<open>a?.length > 0\<close>: \<open>undefined > 0\<close> is false.\<close>

definition length_gt0 :: "string list option \<Rightarrow> bool" where
  "length_gt0 a = (case a of None \<Rightarrow> False | Some xs \<Rightarrow> length xs > 0)"

definition hasMemory :: "message \<Rightarrow> bool" where
  "hasMemory message \<longleftrightarrow>
     length_gt0 (memoryData message ''stem'') \<or> length_gt0 (memoryData message ''branch'')"

definition isUser :: "message \<Rightarrow> bool" where
  "isUser message \<longleftrightarrow> role message = ''user''"

text \<open>\<open>a.map((m, i) => <li key={i}>{m}</li>)\<close>\<close>

definition li_items :: "string list \<Rightarrow> vnode list" where
  "li_items a = map (\<lambda>m. VElem ''li'' [] [VText m]) a"

text \<open>The block \<open>{memoryData.stem?.length > 0 && (...)}\<close> of the panel.\<close>

definition stem_block :: "message \<Rightarrow> vnode list" where
  "stem_block message =
     (case memoryData message ''stem'' of
        None \<Rightarrow> []
      | Some xs \<Rightarrow>
          if length xs > 0 then
            [VElem ''div'' [(''className'', ''mb-2'')]
               [VElem ''span'' [(''className'', ''text-[#40916c] font-bold'')]
                  [VText ''STEM (Identity):''],
                VElem ''ul''
                  [(''className'', ''list-disc list-inside mt-0.5 text-gray-400 pl-1 space-y-0.5'')]
                  (li_items xs)]]
          else [])"

text \<open>The block \<open>{memoryData.branch?.length > 0 && (...)}\<close> of the panel.\<close>

definition branch_block :: "message \<Rightarrow> vnode list" where
  "branch_block message =
     (case memoryData message ''branch'' of
        None \<Rightarrow> []
      | Some xs \<Rightarrow>
          if length xs > 0 then
            [VElem ''div'' [(''className'', ''mb-0'')]
               [VElem ''span'' [(''className'', ''text-[#52b788] font-bold'')]
                  [VText ''BRANCH (Pattern):''],
                VElem ''ul''
                  [(''className'', ''list-disc list-inside mt-0.5 text-gray-400 pl-1 space-y-0.5'')]
                  (li_items xs)]]
          else [])"

definition panel_header :: vnode where
  "panel_header =
     VElem ''div''
       [(''className'', ''mb-2 text-[#a0a0a0] font-medium uppercase tracking-wider text-[10px]'')]
       [VText ''Memory Context Used'']"

text \<open>The explanation panel, \<open>{showExplain && !isUser && hasMemory && (...)}\<close>.\<close>

definition explanation_panel :: "message \<Rightarrow> bool \<Rightarrow> vnode list" where
  "explanation_panel message showExplain =
     (if showExplain \<and> \<not> isUser message \<and> hasMemory message then
        [VElem ''div''
           [(''className'',
             ''mt-2 ml-1 p-3 bg-[#111312] border border-[#2d6a4f]/30 rounded-lg text-xs animate-fade-in'')]
           (panel_header # stem_block message @ branch_block message)]
      else [])"

text \<open>The explainability toggle, \<open>{!isUser && hasMemory && (...)}\<close>.\<close>

definition explain_toggle :: "message \<Rightarrow> bool \<Rightarrow> vnode list" where
  "explain_toggle message showExplain =
     (if \<not> isUser message \<and> hasMemory message then
        [VElem ''div''
           [(''className'',
             ''mt-1 ml-1 opacity-0 group-hover:opacity-100 transition-opacity duration-300'')]
           [VElem ''button''
              [(''onClick'', ''setShowExplain(!showExplain)''),
               (''className'',
                ''text-xs text-[#52b788] hover:text-[#74c69d] hover:underline flex items-center gap-1'')]
              [VText (if showExplain then ''Hide Context'' else ''Why did I say this?'')]]]
      else [])"

text \<open>The avatar, \<open>{!isUser && (...)}\<close>.\<close>

definition avatar :: "message \<Rightarrow> vnode list" where
  "avatar message =
     (if \<not> isUser message then
        [VElem ''div'' [(''className'', ''flex-shrink-0 mr-3 mt-1'')]
           [VElem ''div''
              [(''className'',
                ''w-8 h-8 rounded-full bg-[#2d6a4f]/20 flex items-center justify-center border border-[#2d6a4f]/50'')]
              [VElem ''Leaf'' [(''size'', ''14''), (''className'', ''text-[#40916c]'')] []]]]
      else [])"

text \<open>
  The component. Its only state is \<open>showExplain\<close> (\<open>useState(false)\<close>), passed as the
  second argument.
\<close>

definition MessageBubble :: "message \<Rightarrow> bool \<Rightarrow> vnode" where
  "MessageBubble message showExplain =
     VElem ''div''
       [(''className'',
         ''flex w-full mb-6 '' @ (if isUser message then ''justify-end'' else ''justify-start'')
           @ '' animate-fade-in group'')]
       (avatar message @
        [VElem ''div'' [(''className'', ''flex flex-col max-w-[85%] md:max-w-[70%]'')]
           (VElem ''div''
              [(''className'',
                ''px-5 py-3.5 text-[0.95rem] leading-relaxed shadow-sm relative'' @ [CHR 0x0A]
                  @ ''            ''
                  @ (if isUser message then ''bg-[#2d6a4f] text-white rounded-2xl rounded-tr-sm''
                     else ''bg-[#1a1d1c] border border-white/5 text-gray-200 rounded-2xl rounded-tl-sm''))]
              [VText (msg_text message)]
            # explain_toggle message showExplain @ explanation_panel message showExplain)])"

text \<open>The initial state and the click handler \<open>() => setShowExplain(!showExplain)\<close>.\<close>

definition showExplain_init :: bool where
  "showExplain_init = False"

definition onClick :: "bool \<Rightarrow> bool" where
  "onClick showExplain = (\<not> showExplain)"

section \<open>App.jsx: sending a message\<close>




datatype error = TypeError | Rejected



text \<open>
  \<open>String.prototype.trim\<close> strips white space and line terminators from both ends; of
  the 8-bit characters these are TAB, LF, VT, FF, CR, SP and NBSP.
\<close>

definition is_white_space :: "char \<Rightarrow> bool" where
  "is_white_space c \<longleftrightarrow>
     c \<in> {CHR 0x09, CHR 0x0A, CHR 0x0B, CHR 0x0C, CHR 0x0D, CHR 0x20, CHR 0xA0}"

definition trim :: "string \<Rightarrow> string" where
  "trim s = rev (dropWhile is_white_space (rev (dropWhile is_white_space s)))"






section \<open>Reading a rendered tree\<close>

text \<open>Every node of a tree, parents before children, in document order.\<close>

fun subtrees :: "vnode \<Rightarrow> vnode list" where
  "subtrees (VText s) = [VText s]"
| "subtrees (VElem t as cs) = VElem t as cs # concat (map subtrees cs)"

text \<open>The text an element shows: its text leaves in document order.\<close>

fun texts :: "vnode \<Rightarrow> string list" where
  "texts (VText s) = [s]"
| "texts (VElem t as cs) = concat (map texts cs)"

fun is_button :: "vnode \<Rightarrow> bool" where
  "is_button (VElem t as cs) = (t = ''button'')"
| "is_button (VText s) = False"

definition buttons :: "vnode \<Rightarrow> vnode list" where
  "buttons v = filter is_button (subtrees v)"

text \<open>The toggle is the component's only button.\<close>

definition toggle_rendered :: "vnode \<Rightarrow> bool" where
  "toggle_rendered v \<longleftrightarrow> buttons v \<noteq> []"

text \<open>The panel is the element whose first child is the header \<open>Memory Context Used\<close>.\<close>

fun is_panel :: "vnode \<Rightarrow> bool" where
  "is_panel (VElem t as (c # cs)) = (c = panel_header)"
| "is_panel _ = False"

definition panels :: "vnode \<Rightarrow> vnode list" where
  "panels v = filter is_panel (subtrees v)"

definition panel_rendered :: "vnode \<Rightarrow> bool" where
  "panel_rendered v \<longleftrightarrow> panels v \<noteq> []"

text \<open>
  A labelled list is an element made of a \<open>span\<close> holding the label and a \<open>ul\<close>
  holding the items; \<open>sections\<close> reads every labelled list of a tree as the pair of its
  label and the texts of its items, in document order.
\<close>

fun section_of :: "vnode \<Rightarrow> (string \<times> string list) option" where
  "section_of (VElem t as [VElem t1 as1 [VText l], VElem t2 as2 cs]) =
     (if t1 = ''span'' \<and> t2 = ''ul'' then Some (l, concat (map texts cs)) else None)"
| "section_of _ = None"

definition sections :: "vnode \<Rightarrow> (string \<times> string list) list" where
  "sections v = List.map_filter section_of (subtrees v)"

section \<open>The words of the specification\<close>

text \<open>
  ``The explanation object has a non-empty \<open>k\<close> array'', and the items of that array
  (none when there is no explanation object or no such array).
\<close>

definition has_nonempty_array :: "message \<Rightarrow> string \<Rightarrow> bool" where
  "has_nonempty_array message k =
     (case explanation message of
        None \<Rightarrow> False
      | Some e \<Rightarrow> (case e k of None \<Rightarrow> False | Some xs \<Rightarrow> xs \<noteq> []))"

definition array_items :: "message \<Rightarrow> string \<Rightarrow> string list" where
  "array_items message k =
     (case explanation message of
        None \<Rightarrow> []
      | Some e \<Rightarrow> (case e k of None \<Rightarrow> [] | Some xs \<Rightarrow> xs))"

text \<open>The items listed under a label: a label with no items is not shown.\<close>

definition listed_under :: "string \<Rightarrow> string list \<Rightarrow> (string \<times> string list) list" where
  "listed_under label items = (if items = [] then [] else [(label, items)])"

section \<open>Example data\<close>

definition example_explanation :: explanation where
  "example_explanation =
     [''stem'' \<mapsto> [''Name: Ada'', ''Lives in Pune''], ''branch'' \<mapsto> [''Runs every morning'']]"

definition example_ai_message :: message where
  "example_ai_message =
     \<lparr>role = ''ai'', msg_text = ''Good morning, Ada'', explanation = Some example_explanation\<rparr>"

definition example_user_message :: message where
  "example_user_message =
     \<lparr>role = ''user'', msg_text = ''hello'', explanation = Some example_explanation\<rparr>"




section \<open>Lemmas on the rendered tree\<close>

lemma map_filter_append:
  "List.map_filter f (xs @ ys) = List.map_filter f xs @ List.map_filter f ys"
  by (simp add: List.map_filter_def)

lemma hasMemory_iff:
  "hasMemory m \<longleftrightarrow> has_nonempty_array m ''stem'' \<or> has_nonempty_array m ''branch''"
  by (simp add: hasMemory_def has_nonempty_array_def memoryData_def length_gt0_def
      split: option.splits)

subsection \<open>The list items\<close>

lemma li_items_texts: "concat (map texts (li_items xs)) = xs"
  by (induction xs) (simp_all add: li_items_def)

lemma li_items_buttons: "filter is_button (concat (map subtrees (li_items xs))) = []"
  by (induction xs) (simp_all add: li_items_def)

lemma li_items_panels: "filter is_panel (concat (map subtrees (li_items xs))) = []"
  by (induction xs) (simp_all add: li_items_def panel_header_def)

lemma li_items_sections: "List.map_filter section_of (concat (map subtrees (li_items xs))) = []"
  by (induction xs) (simp_all add: li_items_def List.map_filter_simps)

lemma li_items_not_panel: "\<not> is_panel (VElem t as (li_items xs))"
  by (cases xs) (simp_all add: li_items_def panel_header_def)

lemma li_items_not_section: "section_of (VElem t as (li_items xs)) = None"
proof (cases xs)
  case Nil
  then show ?thesis by (simp add: li_items_def)
next
  case (Cons x ys)
  show ?thesis
  proof (cases ys)
    case Nil
    with Cons show ?thesis by (simp add: li_items_def)
  next
    case (Cons y zs)
    with \<open>xs = x # ys\<close> show ?thesis by (cases zs) (simp_all add: li_items_def)
  qed
qed

lemmas li_items_simps =
  li_items_texts li_items_buttons li_items_panels li_items_sections
  li_items_not_panel li_items_not_section

subsection \<open>The two blocks of the panel\<close>

lemma stem_block_buttons: "filter is_button (concat (map subtrees (stem_block m))) = []"
  by (simp add: stem_block_def li_items_simps split: option.splits)

lemma branch_block_buttons: "filter is_button (concat (map subtrees (branch_block m))) = []"
  by (simp add: branch_block_def li_items_simps split: option.splits)

lemma stem_block_panels: "filter is_panel (concat (map subtrees (stem_block m))) = []"
  by (simp add: stem_block_def li_items_simps panel_header_def split: option.splits)

lemma branch_block_panels: "filter is_panel (concat (map subtrees (branch_block m))) = []"
  by (simp add: branch_block_def li_items_simps panel_header_def split: option.splits)

lemma stem_block_sections:
  "List.map_filter section_of (concat (map subtrees (stem_block m))) =
     listed_under ''STEM (Identity):'' (array_items m ''stem'')"
  by (simp add: stem_block_def memoryData_def array_items_def listed_under_def
      List.map_filter_simps li_items_simps split: option.splits)

lemma branch_block_sections:
  "List.map_filter section_of (concat (map subtrees (branch_block m))) =
     listed_under ''BRANCH (Pattern):'' (array_items m ''branch'')"
  by (simp add: branch_block_def memoryData_def array_items_def listed_under_def
      List.map_filter_simps li_items_simps split: option.splits)

lemma stem_block_texts:
  "concat (map texts (stem_block m)) =
     concat (map (\<lambda>(label, items). label # items)
       (listed_under ''STEM (Identity):'' (array_items m ''stem'')))"
  by (simp add: stem_block_def memoryData_def array_items_def listed_under_def
      li_items_simps split: option.splits)

lemma branch_block_texts:
  "concat (map texts (branch_block m)) =
     concat (map (\<lambda>(label, items). label # items)
       (listed_under ''BRANCH (Pattern):'' (array_items m ''branch'')))"
  by (simp add: branch_block_def memoryData_def array_items_def listed_under_def
      li_items_simps split: option.splits)

lemma blocks_not_section:
  "section_of (VElem t as (panel_header # stem_block m @ branch_block m)) = None"
  by (simp add: panel_header_def stem_block_def branch_block_def split: option.splits)

subsection \<open>The whole component\<close>

lemma buttons_MessageBubble:
  "buttons (MessageBubble m s) = concat (map buttons (explain_toggle m s))"
  by (cases "isUser m"; cases "hasMemory m"; cases s)
     (simp_all add: buttons_def MessageBubble_def avatar_def explain_toggle_def
      explanation_panel_def panel_header_def stem_block_buttons branch_block_buttons)

lemma toggle_rendered_iff:
  "toggle_rendered (MessageBubble m s) \<longleftrightarrow> \<not> isUser m \<and> hasMemory m"
  by (simp add: toggle_rendered_def buttons_MessageBubble)
     (simp add: explain_toggle_def buttons_def)

lemma panels_MessageBubble:
  "panels (MessageBubble m s) = explanation_panel m s"
  by (cases "isUser m"; cases "hasMemory m"; cases s)
     (simp_all add: panels_def MessageBubble_def avatar_def explain_toggle_def
      explanation_panel_def stem_block_panels branch_block_panels panel_header_def)

lemma sections_MessageBubble:
  "sections (MessageBubble m s) =
     (if s \<and> \<not> isUser m \<and> hasMemory m then
        listed_under ''STEM (Identity):'' (array_items m ''stem'') @
        listed_under ''BRANCH (Pattern):'' (array_items m ''branch'')
      else [])"
  by (cases "isUser m"; cases "hasMemory m"; cases s)
     (simp_all add: sections_def MessageBubble_def avatar_def explain_toggle_def
      explanation_panel_def List.map_filter_simps map_filter_append
      blocks_not_section [unfolded panel_header_def]
      stem_block_sections branch_block_sections panel_header_def)

lemma toggle_label:
  "map texts (buttons (MessageBubble m s)) =
     (if \<not> isUser m \<and> hasMemory m
      then [[if s then ''Hide Context'' else ''Why did I say this?'']] else [])"
  by (simp add: buttons_MessageBubble) (simp add: explain_toggle_def buttons_def)

subsection \<open>Properties outside \<open>stem\<close> and \<open>branch\<close>\<close>

lemma other_key_memoryData:
  assumes "k \<noteq> ''stem''" "k \<noteq> ''branch''"
  shows "memoryData (m\<lparr>explanation := map_option (\<lambda>e. e(k \<mapsto> ls)) (explanation m)\<rparr>) ''stem''
           = memoryData m ''stem''"
    and "memoryData (m\<lparr>explanation := map_option (\<lambda>e. e(k \<mapsto> ls)) (explanation m)\<rparr>) ''branch''
           = memoryData m ''branch''"
  using assms by (auto simp: memoryData_def split: option.splits)

lemma other_key_panel:
  assumes "k \<noteq> ''stem''" "k \<noteq> ''branch''"
  shows "explanation_panel (m\<lparr>explanation := map_option (\<lambda>e. e(k \<mapsto> ls)) (explanation m)\<rparr>) s
           = explanation_panel m s"
  by (simp add: explanation_panel_def stem_block_def branch_block_def hasMemory_def isUser_def
      other_key_memoryData [OF assms])

subsection \<open>The handler\<close>

lemma trim_nonempty: "trim s \<noteq> [] \<Longrightarrow> s \<noteq> []"
  by (auto simp: trim_def)

section \<open>The claims\<close>

text \<open>
  Claim C3. For an assistant message (one whose role is not \<open>user\<close>) whose explanation
  object has a non-empty \<open>stem\<close> array or a non-empty \<open>branch\<close> array, the toggle is
  there to be clicked and the panel is closed at first. After the click, the labelled
  lists of the component are exactly the stem items under \<open>STEM (Identity):\<close> followed by
  the branch items under \<open>BRANCH (Pattern):\<close>, each in its array order, an empty array
  giving no list; the whole text of the panel is its heading followed by these labels and
  items, so nothing else is shown; and the panel is the same whatever the explanation
  object holds under any other property \<open>k\<close> (\<open>leaf\<close>, for one).
\<close>

theorem opened_panel_lists_stem_and_branch:
  assumes "role m \<noteq> ''user''"
    and "has_nonempty_array m ''stem'' \<or> has_nonempty_array m ''branch''"
    and "k \<noteq> ''stem''" and "k \<noteq> ''branch''"
  shows "toggle_rendered (MessageBubble m showExplain_init)
    \<and> \<not> panel_rendered (MessageBubble m showExplain_init)
    \<and> sections (MessageBubble m (onClick showExplain_init)) =
         listed_under ''STEM (Identity):'' (array_items m ''stem'') @
         listed_under ''BRANCH (Pattern):'' (array_items m ''branch'')
    \<and> map texts (panels (MessageBubble m (onClick showExplain_init))) =
         [''Memory Context Used'' #
          concat (map (\<lambda>(label, items). label # items)
            (listed_under ''STEM (Identity):'' (array_items m ''stem'') @
             listed_under ''BRANCH (Pattern):'' (array_items m ''branch'')))]
    \<and> panels (MessageBubble
          (m\<lparr>explanation := map_option (\<lambda>e. e(k \<mapsto> ls)) (explanation m)\<rparr>)
          (onClick showExplain_init)) =
        panels (MessageBubble m (onClick showExplain_init))"
proof -
  from assms have u: "\<not> isUser m" and h: "hasMemory m"
    by (simp_all add: isUser_def hasMemory_iff)
  have "toggle_rendered (MessageBubble m showExplain_init)"
    using u h by (simp add: toggle_rendered_iff)
  moreover have "\<not> panel_rendered (MessageBubble m showExplain_init)"
    by (simp add: panel_rendered_def panels_MessageBubble explanation_panel_def
        showExplain_init_def)
  moreover have "sections (MessageBubble m (onClick showExplain_init)) =
         listed_under ''STEM (Identity):'' (array_items m ''stem'') @
         listed_under ''BRANCH (Pattern):'' (array_items m ''branch'')"
    using u h by (simp add: sections_MessageBubble onClick_def showExplain_init_def)
  moreover have "map texts (panels (MessageBubble m (onClick showExplain_init))) =
         [''Memory Context Used'' #
          concat (map (\<lambda>(label, items). label # items)
            (listed_under ''STEM (Identity):'' (array_items m ''stem'') @
             listed_under ''BRANCH (Pattern):'' (array_items m ''branch'')))]"
    using u h
    by (simp add: panels_MessageBubble explanation_panel_def onClick_def showExplain_init_def
        panel_header_def stem_block_texts branch_block_texts)
  moreover have "panels (MessageBubble
          (m\<lparr>explanation := map_option (\<lambda>e. e(k \<mapsto> ls)) (explanation m)\<rparr>)
          (onClick showExplain_init)) =
        panels (MessageBubble m (onClick showExplain_init))"
    using assms(3,4) by (simp add: panels_MessageBubble other_key_panel)
  ultimately show ?thesis by simp
qed

theorem opened_panel_lists_stem_and_branch_witness:
  "role example_ai_message \<noteq> ''user''
   \<and> has_nonempty_array example_ai_message ''stem''
   \<and> sections (MessageBubble example_ai_message (onClick showExplain_init)) =
       [(''STEM (Identity):'', [''Name: Ada'', ''Lives in Pune'']),
        (''BRANCH (Pattern):'', [''Runs every morning''])]
   \<and> map texts (panels (MessageBubble
         (example_ai_message\<lparr>explanation :=
            map_option (\<lambda>e. e(''leaf'' \<mapsto> [''Ate pizza on Friday'']))
              (explanation example_ai_message)\<rparr>)
         (onClick showExplain_init))) =
       [[''Memory Context Used'', ''STEM (Identity):'', ''Name: Ada'', ''Lives in Pune'',
         ''BRANCH (Pattern):'', ''Runs every morning'']]"
  using opened_panel_lists_stem_and_branch
    [of example_ai_message "''leaf''" "[''Ate pizza on Friday'']"]
  by (simp add: example_ai_message_def example_explanation_def has_nonempty_array_def
      array_items_def listed_under_def)

text \<open>
  Claim C4. Whatever the state of the component, the toggle is rendered if and only if the
  message is not a user message and its explanation object has a non-empty \<open>stem\<close> array
  or a non-empty \<open>branch\<close> array; in the initial state its label is
  \<open>Why did I say this?\<close>. A user message shows neither the toggle nor the panel,
  whatever explanation it carries.
\<close>

theorem toggle_rendered_iff_assistant_with_memory:
  "(toggle_rendered (MessageBubble m s) \<longleftrightarrow>
      role m \<noteq> ''user'' \<and> (has_nonempty_array m ''stem'' \<or> has_nonempty_array m ''branch''))
   \<and> map texts (buttons (MessageBubble m showExplain_init)) =
       (if role m \<noteq> ''user'' \<and> (has_nonempty_array m ''stem'' \<or> has_nonempty_array m ''branch'')
        then [[''Why did I say this?'']] else [])
   \<and> (role m = ''user'' \<longrightarrow>
        \<not> toggle_rendered (MessageBubble m s) \<and> \<not> panel_rendered (MessageBubble m s))"
  by (simp add: toggle_rendered_iff toggle_label hasMemory_iff isUser_def panel_rendered_def
      panels_MessageBubble explanation_panel_def showExplain_init_def)

theorem toggle_rendered_iff_assistant_with_memory_witness:
  "role example_user_message = ''user''
   \<and> has_nonempty_array example_user_message ''stem''
   \<and> \<not> toggle_rendered (MessageBubble example_user_message True)
   \<and> \<not> panel_rendered (MessageBubble example_user_message True)
   \<and> map texts (buttons (MessageBubble example_user_message showExplain_init)) = []"
  using toggle_rendered_iff_assistant_with_memory [of example_user_message True]
  by (simp add: example_user_message_def example_explanation_def has_nonempty_array_def)




end
